theory Spec2Isabelle
  imports Complex_Main
begin

section \<open>JavaScript numbers\<close>

text \<open>
  The scheduler computes on JavaScript numbers. A number is modelled as a real (the
  finite doubles, idealised: no rounding, no overflow, no signed zero) or one of the three
  special values that \<open>Math.log\<close>, division and \<open>Math.pow\<close> produce on the
  edge of their domain. No arithmetic operation of JavaScript throws.
\<close>

datatype jsnum = Num real | PosInf | NegInf | NaN

fun jneg :: "jsnum \<Rightarrow> jsnum" where
  "jneg (Num a) = Num (- a)"
| "jneg PosInf = NegInf"
| "jneg NegInf = PosInf"
| "jneg NaN = NaN"

fun jadd :: "jsnum \<Rightarrow> jsnum \<Rightarrow> jsnum" where
  "jadd NaN _ = NaN"
| "jadd _ NaN = NaN"
| "jadd (Num a) (Num b) = Num (a + b)"
| "jadd PosInf NegInf = NaN"
| "jadd NegInf PosInf = NaN"
| "jadd PosInf _ = PosInf"
| "jadd NegInf _ = NegInf"
| "jadd (Num a) x = x"

definition jsub :: "jsnum \<Rightarrow> jsnum \<Rightarrow> jsnum" where
  "jsub x y = jadd x (jneg y)"

text \<open>The sign of a number that is not NaN: \<open>True\<close> for negative. Zero counts as \<open>+0\<close>.\<close>

fun jnegative :: "jsnum \<Rightarrow> bool" where
  "jnegative (Num a) = (a < 0)"
| "jnegative NegInf = True"
| "jnegative _ = False"

definition jinf :: "bool \<Rightarrow> jsnum" where
  "jinf negative = (if negative then NegInf else PosInf)"

fun jmul :: "jsnum \<Rightarrow> jsnum \<Rightarrow> jsnum" where
  "jmul NaN _ = NaN"
| "jmul _ NaN = NaN"
| "jmul (Num a) (Num b) = Num (a * b)"
| "jmul (Num a) y = (if a = 0 then NaN else jinf (jnegative (Num a) \<noteq> jnegative y))"
| "jmul x (Num b) = (if b = 0 then NaN else jinf (jnegative x \<noteq> jnegative (Num b)))"
| "jmul x y = jinf (jnegative x \<noteq> jnegative y)"

fun jdiv :: "jsnum \<Rightarrow> jsnum \<Rightarrow> jsnum" where
  "jdiv NaN _ = NaN"
| "jdiv _ NaN = NaN"
| "jdiv (Num a) (Num b) =
     (if b \<noteq> 0 then Num (a / b)
      else if a = 0 then NaN
      else jinf (a < 0))"
| "jdiv (Num a) _ = Num 0"
| "jdiv x (Num b) = jinf (jnegative x \<noteq> jnegative (Num b))"
| "jdiv _ _ = NaN"

fun jexp :: "jsnum \<Rightarrow> jsnum" where
  "jexp (Num a) = Num (exp a)"
| "jexp PosInf = PosInf"
| "jexp NegInf = Num 0"
| "jexp NaN = NaN"

fun jlog :: "jsnum \<Rightarrow> jsnum" where
  "jlog (Num a) = (if 0 < a then Num (ln a) else if a = 0 then NegInf else NaN)"
| "jlog PosInf = PosInf"
| "jlog NegInf = NaN"
| "jlog NaN = NaN"

definition is_int :: "real \<Rightarrow> bool" where
  "is_int b = (of_int \<lfloor>b\<rfloor> = b)"

definition is_odd_int :: "real \<Rightarrow> bool" where
  "is_odd_int b = (is_int b \<and> odd \<lfloor>b\<rfloor>)"

text \<open>\<open>Math.pow\<close>, case by case as Number::exponentiate of ECMAScript orders them.\<close>

fun jpow :: "jsnum \<Rightarrow> jsnum \<Rightarrow> jsnum" where
  "jpow _ NaN = NaN"
| "jpow NaN (Num b) = (if b = 0 then Num 1 else NaN)"
| "jpow NaN _ = NaN"
| "jpow PosInf (Num b) = (if b = 0 then Num 1 else if 0 < b then PosInf else Num 0)"
| "jpow PosInf PosInf = PosInf"
| "jpow PosInf NegInf = Num 0"
| "jpow NegInf (Num b) =
     (if b = 0 then Num 1
      else if 0 < b then (if is_odd_int b then NegInf else PosInf)
      else Num 0)"
| "jpow NegInf PosInf = PosInf"
| "jpow NegInf NegInf = Num 0"
| "jpow (Num a) PosInf =
     (if 1 < \<bar>a\<bar> then PosInf else if \<bar>a\<bar> = 1 then NaN else Num 0)"
| "jpow (Num a) NegInf =
     (if 1 < \<bar>a\<bar> then Num 0 else if \<bar>a\<bar> = 1 then NaN else PosInf)"
| "jpow (Num a) (Num b) =
     (if b = 0 then Num 1
      else if a = 0 then (if 0 < b then Num 0 else PosInf)
      else if 0 < a then Num (a powr b)
      else if is_int b then Num ((if is_odd_int b then - 1 else 1) * (\<bar>a\<bar> powr b))
      else NaN)"

text \<open>\<open>Math.round\<close> rounds to the nearest integer, a tie towards \<open>+\<infinity>\<close>.\<close>

fun jround :: "jsnum \<Rightarrow> jsnum" where
  "jround (Num a) = Num (of_int (round a))"
| "jround x = x"

text \<open>The comparisons \<open><=\<close> and \<open>>\<close>: false as soon as one side is NaN.\<close>

fun jle :: "jsnum \<Rightarrow> jsnum \<Rightarrow> bool" where
  "jle NaN _ = False"
| "jle _ NaN = False"
| "jle (Num a) (Num b) = (a \<le> b)"
| "jle NegInf _ = True"
| "jle _ PosInf = True"
| "jle _ _ = False"

definition jgt :: "jsnum \<Rightarrow> jsnum \<Rightarrow> bool" where
  "jgt x y = (x \<noteq> NaN \<and> y \<noteq> NaN \<and> \<not> jle x y)"

text \<open>\<open>Math.max\<close> and \<open>Math.min\<close>: NaN as soon as one argument is NaN.\<close>

definition jmax :: "jsnum \<Rightarrow> jsnum \<Rightarrow> jsnum" where
  "jmax x y = (if x = NaN \<or> y = NaN then NaN else if jle x y then y else x)"

definition jmin :: "jsnum \<Rightarrow> jsnum \<Rightarrow> jsnum" where
  "jmin x y = (if x = NaN \<or> y = NaN then NaN else if jle x y then x else y)"

text \<open>
  A \<open>Date\<close> is its time value in milliseconds, NaN for an invalid date.
  \<open>new Date(t)\<close> clips: a fraction is cut, anything beyond 8.64e15 is invalid.
\<close>

type_synonym date = jsnum

fun newDate :: "jsnum \<Rightarrow> date" where
  "newDate (Num t) =
     (if \<bar>t\<bar> \<le> 8640000000000000 then Num (if 0 \<le> t then of_int \<lfloor>t\<rfloor> else of_int \<lceil>t\<rceil>) else NaN)"
| "newDate _ = NaN"


section \<open>The FSRS scheduler\<close>

datatype card_state = New | Learning | Review | Relearning

text \<open>\<open>Rating = 1 | 2 | 3 | 4\<close>: Again(1), Hard(2), Good(3), Easy(4).\<close>

datatype rating = Again | Hard | Good | Easy

fun rating_value :: "rating \<Rightarrow> nat" where
  "rating_value Again = 1"
| "rating_value Hard = 2"
| "rating_value Good = 3"
| "rating_value Easy = 4"

record FSRSParameters =
  w :: "jsnum list"
  requestRetention :: jsnum

record FSRSCard =
  state :: card_state
  easeFactor :: jsnum
  stability :: jsnum
  difficulty :: jsnum
  lapses :: jsnum
  lastReview :: "date option"
  dueDate :: "date option"
  interval :: jsnum

text \<open>Reading \<open>w[i]\<close> past the end gives \<open>undefined\<close>, which is NaN in arithmetic.\<close>

definition w_at :: "jsnum list \<Rightarrow> nat \<Rightarrow> jsnum" where
  "w_at ws i = (if i < length ws then ws ! i else NaN)"

definition DEFAULT_PARAMETERS :: FSRSParameters where
  "DEFAULT_PARAMETERS =
     \<lparr> w = [Num (4/10), Num (6/10), Num (24/10), Num (94/100), Num (86/100), Num (101/100),
            Num (13/10), Num (7/10), Num 1, Num 1, Num (9/10), Num (2/10)],
       requestRetention = Num (9/10) \<rparr>"

definition initializeCard :: FSRSCard where
  "initializeCard =
     \<lparr> state = New, easeFactor = Num (25/10), stability = Num 0, difficulty = Num 0,
       lapses = Num 0, lastReview = None, dueDate = None, interval = Num 0 \<rparr>"

definition memoryRetention :: "jsnum \<Rightarrow> jsnum \<Rightarrow> jsnum list \<Rightarrow> jsnum" where
  "memoryRetention stab elapsedDays ws =
     (if jle elapsedDays (Num 0) then Num 1
      else jexp (jdiv (jmul (jlog (Num (9/10))) elapsedDays) stab))"

definition nextInterval :: "jsnum \<Rightarrow> jsnum \<Rightarrow> jsnum" where
  "nextInterval stab retention =
     (if jle stab (Num 0) then Num 0
      else jmax (Num 1) (jround (jdiv (jmul stab (jlog retention)) (jlog (Num (9/10))))))"

definition day_ms :: jsnum where
  "day_ms = Num (24 * 60 * 60 * 1000)"

text \<open>\<open>new Date(now.getTime() + result.interval * 24 * 60 * 60 * 1000)\<close>\<close>

definition due_after :: "date \<Rightarrow> jsnum \<Rightarrow> date" where
  "due_after now days =
     newDate (jadd now (jmul (jmul (jmul (jmul days (Num 24)) (Num 60)) (Num 60)) (Num 1000)))"

text \<open>\<open>Math.min(Math.max(0, d + x), 1)\<close>\<close>

definition clamp01 :: "jsnum \<Rightarrow> jsnum" where
  "clamp01 d = jmin (jmax (Num 0) d) (Num 1)"

text \<open>
  The branch shared by the three passing ratings on a card under review: the stability is
  scaled by the weight \<open>k\<close> and by the retrievability, the interval follows from it.
\<close>

definition rescheduled :: "FSRSCard \<Rightarrow> FSRSCard \<Rightarrow> jsnum \<Rightarrow> jsnum list \<Rightarrow> jsnum \<Rightarrow> date \<Rightarrow> nat \<Rightarrow> FSRSCard" where
  "rescheduled crd result elapsedDays ws retention now k =
     (let retrievability = memoryRetention (stability crd) elapsedDays ws;
          newStability = jmul (jmul (stability crd) (w_at ws k)) (jpow retrievability (jneg (w_at ws 2)));
          days = nextInterval newStability retention
      in result\<lparr> stability := newStability, interval := days, dueDate := Some (due_after now days) \<rparr>)"

definition scheduleReview :: "FSRSCard \<Rightarrow> rating \<Rightarrow> date \<Rightarrow> FSRSParameters \<Rightarrow> FSRSCard" where
  "scheduleReview crd r now params =
     (let ws = w params;
          retention = requestRetention params;
          elapsedDays = (case lastReview crd of
                           Some lr \<Rightarrow> jdiv (jsub now lr) day_ms
                         | None \<Rightarrow> Num 0);
          result = (if state crd = New
                    then crd\<lparr> difficulty := w_at ws 1, stability := w_at ws 0 \<rparr>
                    else crd);
          result =
            (case r of
               Again \<Rightarrow>
                 (let result = (if state crd = New \<or> state crd = Learning
                                then result\<lparr> state := Learning \<rparr>
                                else result\<lparr> state := Relearning, lapses := jadd (lapses result) (Num 1) \<rparr>);
                      result = (if jgt (stability result) (Num 0)
                                then result\<lparr> stability := jmul (stability result) (w_at ws 3) \<rparr>
                                else result)
                  in result\<lparr> difficulty := clamp01 (jadd (difficulty result) (w_at ws 7)),
                             interval := Num 0, dueDate := Some now \<rparr>)
             | Hard \<Rightarrow>
                 (let result =
                        (if state crd = New
                         then result\<lparr> state := Learning, interval := Num 1,
                                      dueDate := Some (newDate (jadd now day_ms)) \<rparr>
                         else if state crd = Learning \<or> state crd = Relearning
                         then result\<lparr> interval := Num 1, dueDate := Some (newDate (jadd now day_ms)) \<rparr>
                         else (rescheduled crd result elapsedDays ws retention now 4)
                                \<lparr> difficulty := clamp01 (jadd (difficulty result) (w_at ws 8)) \<rparr>)
                  in result\<lparr> state := (if state crd = Relearning then Review else state crd) \<rparr>)
             | Good \<Rightarrow>
                 (let result =
                        (if state crd = New \<or> state crd = Learning
                         then result\<lparr> state := Review, interval := Num 1,
                                      dueDate := Some (newDate (jadd now day_ms)) \<rparr>
                         else if state crd = Relearning
                         then rescheduled crd (result\<lparr> state := Review \<rparr>) elapsedDays ws retention now 5
                         else rescheduled crd result elapsedDays ws retention now 5)
                  in result\<lparr> difficulty := clamp01 (jadd (difficulty result) (w_at ws 9)) \<rparr>)
             | Easy \<Rightarrow>
                 (let result =
                        (if state crd = New \<or> state crd = Learning \<or> state crd = Relearning
                         then result\<lparr> state := Review, interval := Num 4,
                                      dueDate := Some (newDate (jadd now (Num (4 * 24 * 60 * 60 * 1000)))) \<rparr>
                         else rescheduled crd result elapsedDays ws retention now 6)
                  in result\<lparr> difficulty := clamp01 (jadd (difficulty result) (w_at ws 10)) \<rparr>))
      in result\<lparr> lastReview := Some now \<rparr>)"


section \<open>Records and tables\<close>

text \<open>
  One entry of a progress record's history. The history column holds the JSON text of the
  list; the model keeps the entries themselves.
\<close>

record ReviewEntry =
  e_date :: date
  e_rating :: rating
  e_elapsedTime :: "jsnum option"
  e_previousInterval :: jsnum
  e_scheduledInterval :: jsnum

text \<open>
  \<open>AyahProgress\<close>, one row of \<open>ayah_progress\<close>. The field names carry the prefix
  \<open>p_\<close> because the card, the group and the statistics share names such as \<open>state\<close>.
\<close>

record AyahProgress =
  p_id :: string
  p_surahNumber :: nat
  p_ayahNumber :: nat
  p_groupId :: string
  p_recallScore :: jsnum
  p_lastReviewed :: "date option"
  p_nextReview :: "date option"
  p_easeFactor :: jsnum
  p_stability :: jsnum
  p_difficulty :: jsnum
  p_lapses :: jsnum
  p_state :: card_state
  p_interval :: jsnum
  p_createdAt :: date
  p_history :: "ReviewEntry list"
  p_testWithGroup :: bool
  p_groupPosition :: nat

datatype group_type = Fixed | Ruku | Page | Custom

datatype group_state = GNew | GLearning | GReview | GComplete

record AyahGroup =
  g_id :: string
  g_surahNumber :: nat
  g_startAyah :: nat
  g_endAyah :: nat
  g_groupType :: group_type
  g_progress :: nat
  g_state :: group_state
  g_ayahIds :: "string list"
  g_testAsGroup :: bool

record Ratings =
  again :: nat
  hard :: nat
  good :: nat
  easy :: nat

record SessionStatistics =
  s_id :: string
  s_date :: date
  s_totalReviewed :: nat
  s_newLearned :: nat
  s_reviewTime :: nat
  s_ratings :: Ratings
  s_retention :: real

text \<open>
  \<open>Surah\<close> as the grouping code reads it: \<open>rukus\<close> and \<open>pages\<close> may be missing
  (\<open>None\<close>) on the object. The names and the revelation type play no part.
\<close>

record Surah =
  number :: nat
  ayahCount :: nat
  rukus :: "nat list option"
  pages :: "nat list option"

text \<open>
  A row of \<open>quran_surahs\<close>: the two JSON columns are kept as what \<open>JSON.parse\<close>
  makes of them, \<open>None\<close> when it throws.
\<close>

record surah_row =
  sr_number :: nat
  sr_rukus :: "nat list option"
  sr_pages :: "nat list option"

record ayah_row =
  ar_surahNumber :: nat
  ar_ayahNumber :: nat
  ar_ruku :: "nat option"
  ar_page :: "nat option"

text \<open>\<open>UserSettings\<close>, without the fields that only the screens read.\<close>

record UserSettings =
  st_id :: string
  st_requestRetention :: jsnum
  st_reviewLimit :: int
  st_newAyahsPerDay :: int
  st_groupingMethod :: group_type
  st_groupingSize :: int
  st_w :: "jsnum list"
  st_maxReviewsPerSession :: int
  st_reviewAheadDays :: int

datatype error =
    StorageError
  | NotFound string
  | RangeError
  | TypeError
  | FetchError

text \<open>The SQL statements the modelled code sends, by table and kind.\<close>

datatype stmt =
    SelectSettings | InsertSettings
  | SelectDue | SelectDueOrdered | SelectProgressByGroup | SelectProgressById | UpdateProgress
  | SelectGroups | DeleteGroups | InsertGroup
  | SelectSurah | SelectAyahs
  | SelectSessionStats | UpdateSessionStats

text \<open>
  The database: its tables as lists of rows in insertion order, and \<open>faults\<close>, which
  says which statements the driver rejects (\<open>executeQuery\<close> or \<open>executeUpdate\<close>
  throws).
\<close>

record database =
  settings :: "UserSettings list"
  ayah_progress :: "AyahProgress list"
  ayah_groups :: "AyahGroup list"
  quran_surahs :: "surah_row list"
  quran_ayahs :: "ayah_row list"
  session_statistics :: "SessionStatistics list"
  faults :: "stmt \<Rightarrow> bool"

definition execute :: "database \<Rightarrow> stmt \<Rightarrow> 'a \<Rightarrow> error + 'a" where
  "execute db q result = (if faults db q then Inl StorageError else Inr result)"

section \<open>The progress store\<close>








definition cardOf :: "AyahProgress \<Rightarrow> FSRSCard" where
  "cardOf p =
     \<lparr> state = p_state p, easeFactor = p_easeFactor p, stability = p_stability p,
       difficulty = p_difficulty p, lapses = p_lapses p, lastReview = p_lastReviewed p,
       dueDate = p_nextReview p, interval = p_interval p \<rparr>"


definition reviewed :: "AyahProgress \<Rightarrow> rating \<Rightarrow> jsnum option \<Rightarrow> date \<Rightarrow> AyahProgress" where
  "reviewed currentProgress r elapsedTime now =
     (let scheduled = scheduleReview (cardOf currentProgress) r now DEFAULT_PARAMETERS;
          reviewEntry = \<lparr> e_date = now, e_rating = r, e_elapsedTime = elapsedTime,
                          e_previousInterval = p_interval currentProgress,
                          e_scheduledInterval = interval scheduled \<rparr>;
          history = p_history currentProgress @ [reviewEntry];
          goodRatings = length (filter (\<lambda>entry. 3 \<le> rating_value (e_rating entry)) history);
          recallScore = (if 0 < length history
                         then Num (real goodRatings / real (length history) * 100)
                         else Num 0)
      in currentProgress\<lparr> p_recallScore := recallScore, p_lastReviewed := Some now,
            p_nextReview := dueDate scheduled, p_easeFactor := easeFactor scheduled,
            p_stability := stability scheduled, p_difficulty := difficulty scheduled,
            p_lapses := lapses scheduled, p_state := state scheduled,
            p_interval := interval scheduled, p_history := history \<rparr>)"


section \<open>Settings\<close>





section \<open>The due summary and the session list\<close>



text \<open>
  A JavaScript \<open>Map\<close> keeps its entries in insertion order, and
  \<open>set\<close> on a key that is present replaces the value in place.
\<close>

fun mapSet :: "('k \<times> 'v) list \<Rightarrow> 'k \<Rightarrow> 'v \<Rightarrow> ('k \<times> 'v) list" where
  "mapSet [] k v = [(k, v)]"
| "mapSet ((k', v') # m) k v = (if k' = k then (k, v) # m else (k', v') # mapSet m k v)"




text \<open>
  The loop of \<open>getSessionAyahs\<close> over the due rows: the first row of a group tested
  together pulls in the whole group, ordered by position.
\<close>

fun gatherGroups ::
  "database \<Rightarrow> AyahProgress list \<Rightarrow> AyahProgress list \<Rightarrow> string set \<Rightarrow> error + AyahProgress list" where
  "gatherGroups db [] processedAyahs processedGroupIds = Inr processedAyahs"
| "gatherGroups db (ayah # rest) processedAyahs processedGroupIds =
     (if p_testWithGroup ayah \<and> p_groupId ayah \<notin> processedGroupIds
      then (case execute db SelectProgressByGroup
                   (sort_key p_groupPosition
                      (filter (\<lambda>row. p_groupId row = p_groupId ayah) (ayah_progress db))) of
              Inl e \<Rightarrow> Inl e
            | Inr groupAyahs \<Rightarrow>
                gatherGroups db rest (processedAyahs @ groupAyahs)
                  (insert (p_groupId ayah) processedGroupIds))
      else if \<not> p_testWithGroup ayah
      then gatherGroups db rest (processedAyahs @ [ayah]) processedGroupIds
      else gatherGroups db rest processedAyahs processedGroupIds)"


text \<open>
  \<open>updateSessionStatistics(id, stats)\<close>, with the five fields its caller passes.
\<close>

record StatsUpdate =
  u_totalReviewed :: nat
  u_newLearned :: nat
  u_reviewTime :: nat
  u_ratings :: Ratings
  u_retention :: real

definition applyStats :: "StatsUpdate \<Rightarrow> SessionStatistics \<Rightarrow> SessionStatistics" where
  "applyStats stats row =
     row\<lparr> s_totalReviewed := u_totalReviewed stats, s_newLearned := u_newLearned stats,
          s_reviewTime := u_reviewTime stats, s_ratings := u_ratings stats,
          s_retention := u_retention stats \<rparr>"

definition updateSessionStatistics ::
  "database \<Rightarrow> string \<Rightarrow> StatsUpdate \<Rightarrow> error + (SessionStatistics \<times> database)" where
  "updateSessionStatistics db ident stats =
     (case execute db SelectSessionStats (filter (\<lambda>row. s_id row = ident) (session_statistics db)) of
        Inl e \<Rightarrow> Inl e
      | Inr [] \<Rightarrow> Inl (NotFound ident)
      | Inr (currentStats # _) \<Rightarrow>
          (case execute db UpdateSessionStats () of
             Inl e \<Rightarrow> Inl e
           | Inr _ \<Rightarrow>
               Inr (applyStats stats currentStats,
                    db\<lparr> session_statistics :=
                          map (\<lambda>row. if s_id row = ident then applyStats stats row else row)
                            (session_statistics db) \<rparr>)))"

section \<open>The review session\<close>

text \<open>
  The state of the session provider. A handler reads the values of the render it was
  created in and queues its changes; the functions below take the rendered state and
  return the state once the queued changes are applied. Navigation and the loading and
  error banners are left out.
\<close>

record Session =
  isActive :: bool
  ayahs :: "AyahProgress list"
  ayahIndex :: int
  currentAyah :: "AyahProgress option"
  sessionStats :: "SessionStatistics option"
  uniqueGroups :: "string list"
  uniqueGroupIndex :: int
  totalReviewed :: nat
  newLearned :: nat
  elapsedTime :: nat
  ayahStartTime :: "real option"
  timer :: bool

definition calculateRetention :: "Ratings \<Rightarrow> real" where
  "calculateRetention ratings =
     (let total = again ratings + hard ratings + good ratings + easy ratings
      in if total = 0 then 0
         else (let passed = hard ratings + good ratings + easy ratings
               in real passed / real total * 100))"

definition resetAfterEnd :: "Session \<Rightarrow> Session" where
  "resetAfterEnd s =
     s\<lparr> isActive := False, ayahs := [], ayahIndex := - 1, currentAyah := None,
        sessionStats := None, uniqueGroups := [], uniqueGroupIndex := - 1 \<rparr>"

text \<open>
  \<open>endSession(latestTotalReviewed?, latestRatings?)\<close>: \<open>s\<close> is the rendered state
  the handler reads, \<open>pending\<close> the state its setters act on. An error of the
  statistics update is caught and logged, and the reset is skipped.
\<close>

definition endSession ::
  "Session \<Rightarrow> Session \<Rightarrow> database \<Rightarrow> nat option \<Rightarrow> Ratings option \<Rightarrow> Session \<times> database" where
  "endSession s pending db latestTotalReviewed latestRatings =
     (let pending = (if timer s then pending\<lparr> timer := False \<rparr> else pending)
      in case sessionStats s of
           None \<Rightarrow> (resetAfterEnd pending, db)
         | Some stats \<Rightarrow>
             (let finalTotalReviewed = (case latestTotalReviewed of
                                          Some n \<Rightarrow> n
                                        | None \<Rightarrow> totalReviewed s);
                  finalRatings = (case latestRatings of
                                    Some r \<Rightarrow> r
                                  | None \<Rightarrow> s_ratings stats)
              in case updateSessionStatistics db (s_id stats)
                        \<lparr> u_totalReviewed = finalTotalReviewed, u_newLearned = newLearned s,
                          u_reviewTime = elapsedTime s, u_ratings = finalRatings,
                          u_retention = calculateRetention finalRatings \<rparr> of
                   Inl e \<Rightarrow> (pending, db)
                 | Inr (_, db') \<Rightarrow> (resetAfterEnd pending, db')))"






section \<open>Grouping\<close>

text \<open>
  \<open>uuidv4()\<close>: the identifiers come from a source \<open>gen\<close>, and the counter says how
  many have been drawn. \<open>fetchAyahsForSurah\<close> is the content provider: it leaves a
  database behind and may throw.
\<close>

type_synonym uuids = "nat \<Rightarrow> string"

type_synonym fetcher = "nat \<Rightarrow> database \<Rightarrow> error option \<times> database"

definition missing :: "nat list option \<Rightarrow> bool" where
  "missing xs = (case xs of None \<Rightarrow> True | Some l \<Rightarrow> length l = 0)"

definition groupsOf :: "database \<Rightarrow> nat \<Rightarrow> group_type \<Rightarrow> AyahGroup list" where
  "groupsOf db surahNumber groupType =
     sort_key g_startAyah
       (filter (\<lambda>g. g_surahNumber g = surahNumber \<and> g_groupType g = groupType) (ayah_groups db))"

definition deleteGroups :: "database \<Rightarrow> nat \<Rightarrow> group_type \<Rightarrow> database" where
  "deleteGroups db surahNumber groupType =
     db\<lparr> ayah_groups :=
           filter (\<lambda>g. \<not> (g_surahNumber g = surahNumber \<and> g_groupType g = groupType))
             (ayah_groups db) \<rparr>"

definition newGroup :: "string \<Rightarrow> nat \<Rightarrow> nat \<Rightarrow> nat \<Rightarrow> group_type \<Rightarrow> AyahGroup" where
  "newGroup ident surahNumber startAyah endAyah groupType =
     \<lparr> g_id = ident, g_surahNumber = surahNumber, g_startAyah = startAyah, g_endAyah = endAyah,
       g_groupType = groupType, g_progress = 0, g_state = GNew, g_ayahIds = [],
       g_testAsGroup = True \<rparr>"

text \<open>
  The loop \<open>for (start = 1; start <= ayahCount; start += size)\<close>, which the clamp
  \<open>Math.max(1, ...)\<close> enters with a size of at least one.
\<close>

function fixedLoop :: "uuids \<Rightarrow> nat \<Rightarrow> nat \<Rightarrow> nat \<Rightarrow> nat \<Rightarrow> nat \<Rightarrow> AyahGroup list" where
  "fixedLoop gen k surahNumber count sz startAyah =
     (if 0 < sz \<and> startAyah \<le> count
      then newGroup (gen k) surahNumber startAyah (min (startAyah + sz - 1) count) Fixed
           # fixedLoop gen (Suc k) surahNumber count sz (startAyah + sz)
      else [])"
  by pat_completeness auto
termination
  by (relation "measure (\<lambda>(gen, k, surahNumber, count, sz, startAyah). Suc count - startAyah)") auto

declare fixedLoop.simps [simp del]

definition createFixedGroups ::
  "Surah \<Rightarrow> int \<Rightarrow> database \<Rightarrow> uuids \<Rightarrow> nat \<Rightarrow> error + (AyahGroup list \<times> database \<times> nat)" where
  "createFixedGroups surah groupSize db gen k =
     (let sz = nat (max 1 (if groupSize = 0 then 5 else groupSize))
      in case execute db DeleteGroups () of
           Inl e \<Rightarrow> Inl e
         | Inr _ \<Rightarrow>
             (let groups = fixedLoop gen k (number surah) (ayahCount surah) sz 1
              in Inr (groups, deleteGroups db (number surah) Fixed, k + length groups)))"

text \<open>
  The attempt to load the boundaries: the fetch, the read of the surah's row and the
  parse sit in one \<open>try\<close>, whose error is logged and dropped. \<open>reload\<close> is what the
  parse assigns to the surah object.
\<close>

definition refetch :: "fetcher \<Rightarrow> (surah_row \<Rightarrow> Surah \<Rightarrow> Surah) \<Rightarrow> Surah \<Rightarrow> database \<Rightarrow> Surah \<times> database" where
  "refetch fetchAyahsForSurah reload surah db =
     (case fetchAyahsForSurah (number surah) db of
        (Some e, db') \<Rightarrow> (surah, db')
      | (None, db') \<Rightarrow>
          (case execute db' SelectSurah (filter (\<lambda>row. sr_number row = number surah) (quran_surahs db')) of
             Inl e \<Rightarrow> (surah, db')
           | Inr [] \<Rightarrow> (surah, db')
           | Inr (row # _) \<Rightarrow> (reload row surah, db')))"

definition reloadBoth :: "surah_row \<Rightarrow> Surah \<Rightarrow> Surah" where
  "reloadBoth row surah =
     (case sr_rukus row of
        None \<Rightarrow> surah
      | Some rs \<Rightarrow>
          (case sr_pages row of
             None \<Rightarrow> surah\<lparr> rukus := Some rs \<rparr>
           | Some ps \<Rightarrow> surah\<lparr> rukus := Some rs, pages := Some ps \<rparr>))"

definition reloadRukus :: "surah_row \<Rightarrow> Surah \<Rightarrow> Surah" where
  "reloadRukus row surah = (case sr_rukus row of None \<Rightarrow> surah | Some rs \<Rightarrow> surah\<lparr> rukus := Some rs \<rparr>)"

definition reloadPages :: "surah_row \<Rightarrow> Surah \<Rightarrow> Surah" where
  "reloadPages row surah = (case sr_pages row of None \<Rightarrow> surah | Some ps \<Rightarrow> surah\<lparr> pages := Some ps \<rparr>)"

text \<open>One step of the loop that fills \<open>rukuMap\<close> (or \<open>pageMap\<close>) with the span seen so far.\<close>

definition span :: "(ayah_row \<Rightarrow> nat option) \<Rightarrow> (nat option \<times> nat \<times> nat) list \<Rightarrow> ayah_row \<Rightarrow> (nat option \<times> nat \<times> nat) list" where
  "span unit m ayah =
     (case map_of m (unit ayah) of
        None \<Rightarrow> mapSet m (unit ayah) (ar_ayahNumber ayah, ar_ayahNumber ayah)
      | Some (startAyah, endAyah) \<Rightarrow>
          mapSet m (unit ayah) (min startAyah (ar_ayahNumber ayah), max endAyah (ar_ayahNumber ayah)))"

text \<open>
  \<open>createRukuGroups\<close> and \<open>createPageGroups\<close> are the same text up to the field they
  read: \<open>bounds\<close> is \<open>surah.rukus\<close> or \<open>surah.pages\<close>, \<open>unit\<close> the ayah's ruku or page.
\<close>

definition createBoundaryGroups ::
  "group_type \<Rightarrow> (Surah \<Rightarrow> nat list option) \<Rightarrow> (surah_row \<Rightarrow> Surah \<Rightarrow> Surah) \<Rightarrow> (ayah_row \<Rightarrow> nat option)
   \<Rightarrow> fetcher \<Rightarrow> Surah \<Rightarrow> database \<Rightarrow> uuids \<Rightarrow> nat
   \<Rightarrow> error + (AyahGroup list \<times> Surah \<times> database \<times> nat)" where
  "createBoundaryGroups groupType bounds reload unit fetchAyahsForSurah surah db gen k =
     (let (surah1, db1) = (if missing (bounds surah)
                           then refetch fetchAyahsForSurah reload surah db
                           else (surah, db))
      in if missing (bounds surah) \<and> missing (bounds surah1)
         then (case createFixedGroups surah1 5 db1 gen k of
                 Inl e \<Rightarrow> Inl e
               | Inr (groups, db2, k2) \<Rightarrow> Inr (groups, surah1, db2, k2))
         else (case execute db1 SelectAyahs
                      (sort_key ar_ayahNumber
                         (filter (\<lambda>row. ar_surahNumber row = number surah1) (quran_ayahs db1))) of
                 Inl e \<Rightarrow> Inl e
               | Inr rows \<Rightarrow>
                   if length rows = 0
                   then (case createFixedGroups surah1 5 db1 gen k of
                           Inl e \<Rightarrow> Inl e
                         | Inr (groups, db2, k2) \<Rightarrow> Inr (groups, surah1, db2, k2))
                   else (let entries = foldl (span unit) [] rows;
                             groups = map (\<lambda>(i, (u, startAyah, endAyah)).
                                             newGroup (gen (k + i)) (number surah1) startAyah endAyah groupType)
                                        (enumerate 0 entries)
                         in Inr (sort_key g_startAyah groups, surah1, db1, k + length entries))))"

definition createRukuGroups ::
  "fetcher \<Rightarrow> Surah \<Rightarrow> database \<Rightarrow> uuids \<Rightarrow> nat \<Rightarrow> error + (AyahGroup list \<times> Surah \<times> database \<times> nat)" where
  "createRukuGroups = createBoundaryGroups Ruku rukus reloadRukus ar_ruku"

definition createPageGroups ::
  "fetcher \<Rightarrow> Surah \<Rightarrow> database \<Rightarrow> uuids \<Rightarrow> nat \<Rightarrow> error + (AyahGroup list \<times> Surah \<times> database \<times> nat)" where
  "createPageGroups = createBoundaryGroups Page pages reloadPages ar_page"

text \<open>\<open>saveGroupToDatabase\<close> for each group in turn.\<close>

fun saveGroups :: "AyahGroup list \<Rightarrow> database \<Rightarrow> error + database" where
  "saveGroups [] db = Inr db"
| "saveGroups (g # gs) db =
     (case execute db InsertGroup () of
        Inl e \<Rightarrow> Inl e
      | Inr _ \<Rightarrow> saveGroups gs (db\<lparr> ayah_groups := ayah_groups db @ [g] \<rparr>))"

text \<open>
  \<open>createGroupsForSurah(surah, groupingMethod, groupingSize = 5)\<close>. The result holds
  the groups, the surah object as the call leaves it, the database and the counter of
  identifiers. The outer \<open>catch\<close> logs and rethrows, so an error of a statement outside
  the inner \<open>try\<close> blocks is the result.
\<close>

definition createGroupsForSurah ::
  "fetcher \<Rightarrow> Surah \<Rightarrow> group_type \<Rightarrow> int \<Rightarrow> database \<Rightarrow> uuids \<Rightarrow> nat
   \<Rightarrow> error + (AyahGroup list \<times> Surah \<times> database \<times> nat)" where
  "createGroupsForSurah fetchAyahsForSurah surah groupingMethod groupingSize db gen k =
     (let (surah, db) =
            (if (groupingMethod = Ruku \<or> groupingMethod = Page)
                \<and> (missing (rukus surah) \<or> missing (pages surah))
             then refetch fetchAyahsForSurah reloadBoth surah db
             else (surah, db))
      in case execute db SelectGroups (groupsOf db (number surah) groupingMethod) of
           Inl e \<Rightarrow> Inl e
         | Inr found \<Rightarrow>
             (case (if groupingMethod = Fixed \<and> 0 < length found
                       \<and> int (g_endAyah (hd found)) - int (g_startAyah (hd found)) + 1 \<noteq> groupingSize
                    then (case execute db DeleteGroups () of
                            Inl e \<Rightarrow> Inl e
                          | Inr _ \<Rightarrow> Inr ([], deleteGroups db (number surah) groupingMethod))
                    else Inr (found, db)) of
                Inl e \<Rightarrow> Inl e
              | Inr (existingGroups, db) \<Rightarrow>
                  if 0 < length existingGroups then Inr (existingGroups, surah, db, k)
                  else (case execute db DeleteGroups () of
                          Inl e \<Rightarrow> Inl e
                        | Inr _ \<Rightarrow>
                            (case (let db = deleteGroups db (number surah) groupingMethod
                                   in case groupingMethod of
                                        Ruku \<Rightarrow> createRukuGroups fetchAyahsForSurah surah db gen k
                                      | Page \<Rightarrow> createPageGroups fetchAyahsForSurah surah db gen k
                                      | _ \<Rightarrow> (case createFixedGroups surah groupingSize db gen k of
                                                Inl e \<Rightarrow> Inl e
                                              | Inr (groups, db', k') \<Rightarrow> Inr (groups, surah, db', k'))) of
                               Inl e \<Rightarrow> Inl e
                             | Inr (groups, surah, db, k) \<Rightarrow>
                                 (let groups = map (\<lambda>g. g\<lparr> g_testAsGroup := True \<rparr>) groups
                                  in case saveGroups groups db of
                                       Inl e \<Rightarrow> Inl e
                                     | Inr db \<Rightarrow> Inr (groups, surah, db, k))))))"

section \<open>Worked inputs\<close>

text \<open>A source of identifiers that never repeats: \<open>u\<close>, \<open>uu\<close>, \<open>uuu\<close>, ...\<close>

definition someUuids :: uuids where
  "someUuids n = replicate (Suc n) (CHR ''u'')"

definition emptyDb :: database where
  "emptyDb =
     \<lparr> settings = [], ayah_progress = [], ayah_groups = [], quran_surahs = [],
       quran_ayahs = [], session_statistics = [], faults = (\<lambda>q. False) \<rparr>"

text \<open>A content provider that is offline: every fetch throws and writes nothing.\<close>

definition offline :: fetcher where
  "offline n db = (Some FetchError, db)"

text \<open>Al-Kawthar, three ayahs, without boundaries loaded.\<close>

definition kawthar :: Surah where
  "kawthar = \<lparr> number = 108, ayahCount = 3, rukus = None, pages = None \<rparr>"

text \<open>A progress row as \<open>createAyahProgress\<close> inserts it.\<close>

definition freshProgress :: "string \<Rightarrow> nat \<Rightarrow> nat \<Rightarrow> string \<Rightarrow> bool \<Rightarrow> nat \<Rightarrow> real \<Rightarrow> AyahProgress" where
  "freshProgress ident surahNumber ayahNumber groupId testWithGroup groupPosition created =
     \<lparr> p_id = ident, p_surahNumber = surahNumber, p_ayahNumber = ayahNumber, p_groupId = groupId,
       p_recallScore = Num 0, p_lastReviewed = None, p_nextReview = None,
       p_easeFactor = easeFactor initializeCard, p_stability = stability initializeCard,
       p_difficulty = difficulty initializeCard, p_lapses = lapses initializeCard,
       p_state = state initializeCard, p_interval = interval initializeCard,
       p_createdAt = Num created, p_history = [], p_testWithGroup = testWithGroup,
       p_groupPosition = groupPosition \<rparr>"





text \<open>A session's statistics as \<open>createSessionStatistics\<close> inserts them, and the tally of five ratings.\<close>

definition zeroStats :: "string \<Rightarrow> SessionStatistics" where
  "zeroStats ident =
     \<lparr> s_id = ident, s_date = Num 0, s_totalReviewed = 0, s_newLearned = 0, s_reviewTime = 0,
       s_ratings = \<lparr> again = 0, hard = 0, good = 0, easy = 0 \<rparr>, s_retention = 0 \<rparr>"

definition tally :: Ratings where
  "tally = \<lparr> again = 1, hard = 1, good = 2, easy = 1 \<rparr>"

text \<open>The provider's initial state.\<close>

definition idleSession :: Session where
  "idleSession =
     \<lparr> isActive = False, ayahs = [], ayahIndex = - 1, currentAyah = None, sessionStats = None,
       uniqueGroups = [], uniqueGroupIndex = - 1, totalReviewed = 0, newLearned = 0,
       elapsedTime = 0, ayahStartTime = None, timer = False \<rparr>"



text \<open>The groups table after a first and after a second request for fixed groups of 5 of Al-Kawthar.\<close>

definition afterFirstCall :: database where
  "afterFirstCall = emptyDb\<lparr> ayah_groups := [newGroup ''u'' 108 1 3 Fixed] \<rparr>"

definition afterSecondCall :: database where
  "afterSecondCall = emptyDb\<lparr> ayah_groups := [newGroup ''uu'' 108 1 3 Fixed] \<rparr>"






section \<open>Predicates of the statements\<close>

definition positive :: "jsnum \<Rightarrow> bool" where
  "positive x = (case x of Num a \<Rightarrow> 0 < a | _ \<Rightarrow> False)"

definition nonnegative :: "jsnum \<Rightarrow> bool" where
  "nonnegative x = (case x of Num a \<Rightarrow> 0 \<le> a | _ \<Rightarrow> False)"

definition finite_num :: "jsnum \<Rightarrow> bool" where
  "finite_num x = (case x of Num a \<Rightarrow> True | _ \<Rightarrow> False)"










text \<open>
  What a rating does to the table: the row of the \<open>j\<close>-th member of the unit is
  replaced by its own review at the reading \<open>clock (k + j)\<close>; \<open>readingFor\<close> finds the
  reading of an identifier. \<open>unitIds\<close> lists the members of the current unit, the
  current item first, and a row is schedulable when its new due date is a valid date.
\<close>

fun readingFor :: "(nat \<Rightarrow> real) \<Rightarrow> nat \<Rightarrow> string list \<Rightarrow> string \<Rightarrow> real option" where
  "readingFor clock k [] ident = None"
| "readingFor clock k (i # idents) ident =
     (if i = ident then Some (clock k) else readingFor clock (Suc k) idents ident)"

definition ratedRows ::
  "(nat \<Rightarrow> real) \<Rightarrow> nat \<Rightarrow> rating \<Rightarrow> jsnum option \<Rightarrow> string list \<Rightarrow> AyahProgress list \<Rightarrow> AyahProgress list" where
  "ratedRows clock k r elapsed idents rows =
     map (\<lambda>row. case readingFor clock k idents (p_id row) of
                  None \<Rightarrow> row
                | Some c \<Rightarrow> reviewed row r elapsed (Num c)) rows"




section \<open>Properties of the scheduler\<close>

lemma positive_Num [simp]: "positive (Num a) = (0 < a)"
  by (simp add: positive_def)

lemma nonnegative_Num [simp]: "nonnegative (Num a) = (0 \<le> a)"
  by (simp add: nonnegative_def)

lemma finite_num_Num [simp]: "finite_num (Num a)"
  by (simp add: finite_num_def)



lemma ln_nine_tenths_neg: "ln (9/10 :: real) < 0"
  by simp

subsection \<open>A new card\<close>

lemma scheduleReview_new_passing:
  "r \<noteq> Hard \<Longrightarrow> state (scheduleReview (c\<lparr> state := New \<rparr>) r now params) \<in> {Learning, Review}"
  by (cases r) (simp_all add: scheduleReview_def Let_def)

lemma scheduleReview_new_interval:
  "nonnegative (interval (scheduleReview (c\<lparr> state := New \<rparr>) r now params))"
  by (cases r) (simp_all add: scheduleReview_def Let_def)

text \<open>
  C1. A new card rated Hard comes back in the state \<open>new\<close>, neither \<open>learning\<close> nor
  \<open>review\<close>: the branch for a new card sets \<open>learning\<close>, and the assignment that closes
  the case Hard puts the card's old state back. The interval is 1. This holds for every
  new card, every timestamp and every parameter set.
\<close>

theorem scheduleReview_new_Hard_stays_new:
  "state (scheduleReview (c\<lparr> state := New \<rparr>) Hard now params) = New
   \<and> state (scheduleReview (c\<lparr> state := New \<rparr>) Hard now params) \<notin> {Learning, Review}
   \<and> interval (scheduleReview (c\<lparr> state := New \<rparr>) Hard now params) = Num 1"
  by (simp add: scheduleReview_def Let_def)

subsection \<open>Retrievability\<close>










subsection \<open>The interval\<close>

text \<open>
  C8. For a positive stability, a lower target retention never shortens the interval:
  for \<open>0 < r2 < r1 < 1\<close>, \<open>nextInterval s r1 \<le> nextInterval s r2\<close>.
\<close>

theorem nextInterval_mono:
  assumes "0 < s" "0 < r2" "r2 < r1" "r1 < 1"
  shows "jle (nextInterval (Num s) (Num r1)) (nextInterval (Num s) (Num r2))"
proof -
  have l: "ln r2 \<le> ln r1" using assms by simp
  have "s * ln r1 / ln (9/10) \<le> s * ln r2 / ln (9/10)"
    using l assms(1) ln_nine_tenths_neg
    by (simp add: divide_le_cancel mult_le_cancel_left)
  then have "round (s * ln r1 / ln (9/10)) \<le> round (s * ln r2 / ln (9/10))"
    by (rule round_mono)
  then show ?thesis using assms
    by (simp add: nextInterval_def jmax_def)
qed

theorem nextInterval_mono_witness:
  "(0::real) < 1 \<and> (0::real) < 1/2 \<and> (1/2 :: real) < 9/10 \<and> (9/10 :: real) < 1
   \<and> jle (nextInterval (Num 1) (Num (9/10))) (nextInterval (Num 1) (Num (1/2)))"
  using nextInterval_mono [of 1 "1/2" "9/10"] by simp

subsection \<open>Again, Good, Good\<close>









section \<open>Properties of the session and the store\<close>

subsection \<open>Retention\<close>

lemma updateSessionStatistics_rows:
  assumes "\<not> faults db SelectSessionStats" "\<not> faults db UpdateSessionStats"
    and "row \<in> set (session_statistics db)" "s_id row = ident"
  shows "\<exists>st. updateSessionStatistics db ident stats
           = Inr (st, db\<lparr> session_statistics :=
                          map (\<lambda>row. if s_id row = ident then applyStats stats row else row)
                            (session_statistics db) \<rparr>)"
proof -
  have "filter (\<lambda>row. s_id row = ident) (session_statistics db) \<noteq> []"
    using assms(3,4) by (auto simp add: filter_empty_conv)
  then obtain x xs where "filter (\<lambda>row. s_id row = ident) (session_statistics db) = x # xs"
    by (cases "filter (\<lambda>row. s_id row = ident) (session_statistics db)") auto
  then show ?thesis using assms(1,2)
    by (simp add: updateSessionStatistics_def execute_def)
qed

text \<open>
  C9. When a session with statistics ends, the retention stored in its row is
  \<open>passed / total * 100\<close> with \<open>passed = hard + good + easy\<close> (and 0 for an empty tally);
  for the tally again 1, hard 1, good 2, easy 1 it is exactly 80.
\<close>

theorem endSession_retention:
  assumes "sessionStats s = Some stats"
    and "\<not> faults db SelectSessionStats" "\<not> faults db UpdateSessionStats"
    and "row \<in> set (session_statistics db)" "s_id row = s_id stats"
  shows "(\<forall>row' \<in> set (session_statistics (snd (endSession s pending db n (Some ratings)))).
            s_id row' = s_id stats \<longrightarrow>
              s_retention row'
                = (if again ratings + hard ratings + good ratings + easy ratings = 0 then 0
                   else real (hard ratings + good ratings + easy ratings)
                        / real (again ratings + hard ratings + good ratings + easy ratings) * 100))
         \<and> (\<exists>row' \<in> set (session_statistics (snd (endSession s pending db n (Some ratings)))).
               s_id row' = s_id stats)
         \<and> calculateRetention \<lparr> again = 1, hard = 1, good = 2, easy = 1 \<rparr> = 80"
proof -
  define patch where "patch =
       \<lparr> u_totalReviewed = (case n of Some k \<Rightarrow> k | None \<Rightarrow> totalReviewed s),
         u_newLearned = newLearned s, u_reviewTime = elapsedTime s, u_ratings = ratings,
         u_retention = calculateRetention ratings \<rparr>"
  define f where "f = (\<lambda>row. if s_id row = s_id stats then applyStats patch row else row)"
  obtain st where "updateSessionStatistics db (s_id stats) patch
                     = Inr (st, db\<lparr> session_statistics := map f (session_statistics db) \<rparr>)"
    using updateSessionStatistics_rows[OF assms(2,3,4,5)] unfolding f_def by blast
  then have db': "session_statistics (snd (endSession s pending db n (Some ratings)))
                    = map f (session_statistics db)"
    using assms(1) by (simp add: endSession_def Let_def patch_def)
  have "calculateRetention \<lparr> again = 1, hard = 1, good = 2, easy = 1 \<rparr> = 80"
    by (simp add: calculateRetention_def)
  moreover have "f row \<in> set (map f (session_statistics db))"
    using assms(4) by simp
  moreover have "s_id (f row) = s_id stats"
    using assms(5) by (simp add: f_def applyStats_def)
  moreover have "\<forall>row' \<in> set (map f (session_statistics db)).
            s_id row' = s_id stats \<longrightarrow>
              s_retention row'
                = (if again ratings + hard ratings + good ratings + easy ratings = 0 then 0
                   else real (hard ratings + good ratings + easy ratings)
                        / real (again ratings + hard ratings + good ratings + easy ratings) * 100)"
    by (auto simp add: f_def patch_def applyStats_def calculateRetention_def Let_def)
  ultimately show ?thesis unfolding db' by blast
qed

theorem endSession_retention_witness:
  "sessionStats (idleSession\<lparr> sessionStats := Some (zeroStats ''s1'') \<rparr>) = Some (zeroStats ''s1'')
   \<and> \<not> faults (emptyDb\<lparr> session_statistics := [zeroStats ''s1''] \<rparr>) SelectSessionStats
   \<and> \<not> faults (emptyDb\<lparr> session_statistics := [zeroStats ''s1''] \<rparr>) UpdateSessionStats
   \<and> zeroStats ''s1'' \<in> set (session_statistics (emptyDb\<lparr> session_statistics := [zeroStats ''s1''] \<rparr>))
   \<and> map s_retention (session_statistics (snd (endSession
         (idleSession\<lparr> sessionStats := Some (zeroStats ''s1'') \<rparr>)
         (idleSession\<lparr> sessionStats := Some (zeroStats ''s1'') \<rparr>)
         (emptyDb\<lparr> session_statistics := [zeroStats ''s1''] \<rparr>) (Some 5) (Some tally)))) = [80]"
  using endSession_retention
     [of "idleSession\<lparr> sessionStats := Some (zeroStats ''s1'') \<rparr>" "zeroStats ''s1''"
         "emptyDb\<lparr> session_statistics := [zeroStats ''s1''] \<rparr>" "zeroStats ''s1''"
         "idleSession\<lparr> sessionStats := Some (zeroStats ''s1'') \<rparr>" "Some 5" tally]
  by (simp add: emptyDb_def idleSession_def zeroStats_def tally_def endSession_def
        updateSessionStatistics_def execute_def applyStats_def calculateRetention_def Let_def)

subsection \<open>Errors of the storage\<close>




lemma gatherGroups_plain:
  "\<forall>a \<in> set due. \<not> p_testWithGroup a \<Longrightarrow> gatherGroups db due acc seen = Inr (acc @ due)"
  by (induction due arbitrary: acc) auto








subsection \<open>Rows without a date of next review\<close>









section \<open>Properties of grouping\<close>

subsection \<open>The fallback of the boundary strategies\<close>





lemma saveGroups_ok:
  "\<not> faults db InsertGroup \<Longrightarrow> saveGroups gs db = Inr (db\<lparr> ayah_groups := ayah_groups db @ gs \<rparr>)"
  by (induction gs arbitrary: db) (simp_all add: execute_def)

lemma fixedLoop_testAsGroup:
  "map (\<lambda>g. g\<lparr> g_testAsGroup := True \<rparr>) (fixedLoop gen k n count sz start) = fixedLoop gen k n count sz start"
proof (induction gen k n count sz start rule: fixedLoop.induct)
  case (1 gen k surahNumber count sz start)
  then show ?case
    by (subst (1 2) fixedLoop.simps) (simp add: newGroup_def)
qed






lemma someUuids_simps: "someUuids 0 = ''u''" "someUuids 1 = ''uu''" "someUuids (Suc 0) = ''uu''"
  by (simp_all add: someUuids_def)





subsection \<open>Fixed groups requested twice\<close>

lemma fixedLoop_shape:
  "\<forall>g \<in> set (fixedLoop gen k n count sz start).
      g_surahNumber g = n \<and> g_groupType g = Fixed \<and> start \<le> g_startAyah g"
proof (induction gen k n count sz start rule: fixedLoop.induct)
  case (1 gen k n count sz start)
  show ?case
  proof (cases "0 < sz \<and> start \<le> count")
    case True
    then have "\<forall>g \<in> set (fixedLoop gen (Suc k) n count sz (start + sz)).
      g_surahNumber g = n \<and> g_groupType g = Fixed \<and> start + sz \<le> g_startAyah g"
      using 1 by simp
    then show ?thesis using True
      by (subst fixedLoop.simps) (auto simp add: newGroup_def)
  next
    case False
    then show ?thesis by (subst fixedLoop.simps) auto
  qed
qed

lemma fixedLoop_sorted:
  "sorted (map g_startAyah (fixedLoop gen k n count sz start))"
proof (induction gen k n count sz start rule: fixedLoop.induct)
  case (1 gen k n count sz start)
  show ?case
  proof (cases "0 < sz \<and> start \<le> count")
    case True
    then have s: "sorted (map g_startAyah (fixedLoop gen (Suc k) n count sz (start + sz)))"
      using 1 by simp
    have "\<forall>g \<in> set (fixedLoop gen (Suc k) n count sz (start + sz)). start \<le> g_startAyah g"
      using fixedLoop_shape[of gen "Suc k" n count sz "start + sz"] by auto
    then show ?thesis using True s
      by (subst fixedLoop.simps) (auto simp add: newGroup_def)
  next
    case False
    then show ?thesis by (subst fixedLoop.simps) auto
  qed
qed

lemma fixedLoop_first:
  assumes "0 < sz" "sz \<le> count"
  shows "\<exists>rest. fixedLoop gen k n count sz 1 = newGroup (gen k) n 1 sz Fixed # rest"
proof -
  have "min (1 + sz - 1) count = sz" using assms by simp
  then show ?thesis using assms by (subst fixedLoop.simps) auto
qed

lemma groupsOf_after_create:
  assumes "\<forall>g \<in> set groups. g_surahNumber g = n \<and> g_groupType g = Fixed"
    and "sorted (map g_startAyah groups)"
  shows "groupsOf (db\<lparr> ayah_groups :=
                        filter (\<lambda>g. \<not> (g_surahNumber g = n \<and> g_groupType g = Fixed)) rows @ groups \<rparr>)
           n Fixed = groups"
proof -
  have "filter (\<lambda>g. g_surahNumber g = n \<and> g_groupType g = Fixed)
          (filter (\<lambda>g. \<not> (g_surahNumber g = n \<and> g_groupType g = Fixed)) rows) = []"
    by (simp add: filter_empty_conv)
  moreover have "filter (\<lambda>g. g_surahNumber g = n \<and> g_groupType g = Fixed) groups = groups"
    using assms(1) by (simp add: filter_id_conv)
  ultimately show ?thesis
    using assms(2) by (simp add: groupsOf_def sort_key_id_if_sorted)
qed


text \<open>
  When the first group spans the requested size, which it does as soon as the surah has
  that many ayahs, a repeated request returns the stored groups and changes nothing.
\<close>

lemma fixed_request_kept:
  assumes "\<not> faults db SelectGroups"
    and "groupsOf db (number surah) Fixed = g # rest"
    and "int (g_endAyah g) - int (g_startAyah g) + 1 = groupingSize"
  shows "createGroupsForSurah f surah Fixed groupingSize db gen k = Inr (g # rest, surah, db, k)"
  using assms by (simp add: createGroupsForSurah_def execute_def)

lemma fixed_request_created:
  assumes "0 < groupingSize"
    and "\<not> faults db SelectGroups" "\<not> faults db DeleteGroups" "\<not> faults db InsertGroup"
    and "groupsOf db (number surah) Fixed = []
         \<or> int (g_endAyah (hd (groupsOf db (number surah) Fixed)))
              - int (g_startAyah (hd (groupsOf db (number surah) Fixed))) + 1 \<noteq> groupingSize"
  shows "createGroupsForSurah f surah Fixed groupingSize db gen k
           = Inr (fixedLoop gen k (number surah) (ayahCount surah) (nat groupingSize) 1, surah,
                  db\<lparr> ayah_groups :=
                        filter (\<lambda>g. \<not> (g_surahNumber g = number surah \<and> g_groupType g = Fixed))
                          (ayah_groups db)
                        @ fixedLoop gen k (number surah) (ayahCount surah) (nat groupingSize) 1 \<rparr>,
                  k + length (fixedLoop gen k (number surah) (ayahCount surah) (nat groupingSize) 1))"
proof -
  let ?G = "fixedLoop gen k (number surah) (ayahCount surah) (nat groupingSize) 1"
  let ?del = "deleteGroups db (number surah) Fixed"
  have sz: "nat (max 1 (if groupingSize = 0 then 5 else groupingSize)) = nat groupingSize"
    using assms(1) by simp
  have dd: "deleteGroups ?del (number surah) Fixed = ?del"
    by (simp add: deleteGroups_def)
  have f: "\<not> faults ?del DeleteGroups" "\<not> faults ?del InsertGroup"
    using assms(3,4) by (simp_all add: deleteGroups_def)
  have cf: "createFixedGroups surah groupingSize ?del gen k = Inr (?G, ?del, k + length ?G)"
    using f(1) sz dd by (simp add: createFixedGroups_def execute_def Let_def)
  have sv: "saveGroups ?G ?del = Inr (?del\<lparr> ayah_groups := ayah_groups ?del @ ?G \<rparr>)"
    by (rule saveGroups_ok[OF f(2)])
  have res: "?del\<lparr> ayah_groups := ayah_groups ?del @ ?G \<rparr>
           = db\<lparr> ayah_groups :=
                        filter (\<lambda>g. \<not> (g_surahNumber g = number surah \<and> g_groupType g = Fixed))
                          (ayah_groups db) @ ?G \<rparr>"
    by (simp add: deleteGroups_def)
  show ?thesis
  proof (cases "groupsOf db (number surah) Fixed = []")
    case True
    then show ?thesis
      using assms(2,3) cf sv res fixedLoop_testAsGroup[of gen k "number surah" "ayahCount surah" "nat groupingSize" 1]
      by (simp add: createGroupsForSurah_def execute_def Let_def)
  next
    case False
    then have "int (g_endAyah (hd (groupsOf db (number surah) Fixed)))
              - int (g_startAyah (hd (groupsOf db (number surah) Fixed))) + 1 \<noteq> groupingSize"
      using assms(5) by simp
    then show ?thesis
      using False assms(2,3) f cf sv res dd fixedLoop_testAsGroup[of gen k "number surah" "ayahCount surah" "nat groupingSize" 1]
      by (simp add: createGroupsForSurah_def execute_def Let_def)
  qed
qed

lemma fixed_request_repeated_when_first_group_full:
  assumes "0 < groupingSize" "nat groupingSize \<le> ayahCount surah"
    and "\<not> faults db SelectGroups" "\<not> faults db DeleteGroups" "\<not> faults db InsertGroup"
    and "createGroupsForSurah f surah Fixed groupingSize db gen k = Inr (groups, surah1, db1, k1)"
  shows "createGroupsForSurah f surah1 Fixed groupingSize db1 gen k1 = Inr (groups, surah1, db1, k1)"
proof (cases "groupsOf db (number surah) Fixed = []
         \<or> int (g_endAyah (hd (groupsOf db (number surah) Fixed)))
              - int (g_startAyah (hd (groupsOf db (number surah) Fixed))) + 1 \<noteq> groupingSize")
  case False
  then obtain g rest where g: "groupsOf db (number surah) Fixed = g # rest"
      "int (g_endAyah g) - int (g_startAyah g) + 1 = groupingSize"
    by (cases "groupsOf db (number surah) Fixed") auto
  have "createGroupsForSurah f surah Fixed groupingSize db gen k = Inr (g # rest, surah, db, k)"
    by (rule fixed_request_kept[OF assms(3) g])
  then have "surah1 = surah" "db1 = db" "k1 = k" using assms(6) by simp_all
  then show ?thesis using assms(6) by simp
next
  case True
  let ?G = "fixedLoop gen k (number surah) (ayahCount surah) (nat groupingSize) 1"
  let ?db1 = "db\<lparr> ayah_groups :=
                        filter (\<lambda>g. \<not> (g_surahNumber g = number surah \<and> g_groupType g = Fixed))
                          (ayah_groups db) @ ?G \<rparr>"
  have "createGroupsForSurah f surah Fixed groupingSize db gen k
           = Inr (?G, surah, ?db1, k + length ?G)"
    by (rule fixed_request_created[OF assms(1,3,4,5) True])
  then have eq: "groups = ?G" "surah1 = surah" "db1 = ?db1" "k1 = k + length ?G"
    using assms(6) by simp_all
  have shape: "\<forall>g \<in> set ?G. g_surahNumber g = number surah \<and> g_groupType g = Fixed"
    using fixedLoop_shape[of gen k "number surah" "ayahCount surah" "nat groupingSize" 1] by blast
  have found: "groupsOf ?db1 (number surah) Fixed = ?G"
    by (rule groupsOf_after_create[OF shape fixedLoop_sorted])
  have pos: "0 < nat groupingSize" using assms(1) by simp
  obtain rest where first: "?G = newGroup (gen k) (number surah) 1 (nat groupingSize) Fixed # rest"
    using fixedLoop_first[OF pos assms(2), of gen k "number surah"] by blast
  have span: "int (g_endAyah (newGroup (gen k) (number surah) 1 (nat groupingSize) Fixed))
                - int (g_startAyah (newGroup (gen k) (number surah) 1 (nat groupingSize) Fixed)) + 1
              = groupingSize"
    using assms(1) by (simp add: newGroup_def)
  have f1: "\<not> faults ?db1 SelectGroups" using assms(3) by simp
  have found': "groupsOf ?db1 (number surah) Fixed
                  = newGroup (gen k) (number surah) 1 (nat groupingSize) Fixed # rest"
    by (rule trans[OF found first])
  have "createGroupsForSurah f surah Fixed groupingSize ?db1 gen (k + length ?G)
          = Inr (newGroup (gen k) (number surah) 1 (nat groupingSize) Fixed # rest, surah, ?db1, k + length ?G)"
    by (rule fixed_request_kept[OF f1 found' span])
  then have "createGroupsForSurah f surah Fixed groupingSize ?db1 gen (k + length ?G)
          = Inr (?G, surah, ?db1, k + length ?G)"
    using first by simp
  then show ?thesis by (simp only: eq)
qed

text \<open>
  C6, at Al-Kawthar (3 ayahs) with an empty groups table: the first request for fixed
  groups of 5 stores the group 1-3 under the identifier \<open>u\<close>; the second request finds
  it, takes its 3 ayahs for a stored size other than 5, deletes it and stores the same
  range under the new identifier \<open>uu\<close>. The two results differ.
\<close>

theorem fixed_groups_regenerated_for_short_surah:
  "createGroupsForSurah offline kawthar Fixed 5 emptyDb someUuids 0
     = Inr ([newGroup ''u'' 108 1 3 Fixed], kawthar, afterFirstCall, 1)
   \<and> createGroupsForSurah offline kawthar Fixed 5 afterFirstCall someUuids 1
       = Inr ([newGroup ''uu'' 108 1 3 Fixed], kawthar, afterSecondCall, 2)
   \<and> [newGroup ''uu'' 108 1 3 Fixed] \<noteq> [newGroup ''u'' 108 1 3 Fixed]
   \<and> ayah_groups afterSecondCall = [newGroup ''uu'' 108 1 3 Fixed]"
  by (simp add: createGroupsForSurah_def createFixedGroups_def execute_def groupsOf_def
        deleteGroups_def emptyDb_def kawthar_def afterFirstCall_def afterSecondCall_def
        fixedLoop.simps someUuids_simps newGroup_def Let_def)


section \<open>Properties of a rating\<close>

lemma reviewed_id [simp]: "p_id (reviewed row r el now) = p_id row"
  by (simp add: reviewed_def Let_def)









lemma ratedRows_ids: "map p_id (ratedRows clock k r el idents rows) = map p_id rows"
  by (simp add: ratedRows_def comp_def split: option.splits)























lemma fresh_id [simp]: "p_id (freshProgress i sn an g t gp cr) = i"
  by (simp add: freshProgress_def)











end
